theory Spec2Isabelle
  imports Main
begin

section \<open>The MIDI program mapper (midi\_controller.py)\<close>

text \<open>
  A shallow embedding of the class \<^verbatim>\<open>ProgramMapper\<close>. Times are Python
  \<^verbatim>\<open>datetime\<close> values, which have a resolution of one microsecond: a time is an
  \<open>int\<close> counting microseconds, and \<^verbatim>\<open>timedelta(milliseconds=100)\<close> is 100000.
  Every call of \<^verbatim>\<open>datetime.now()\<close> is a separate reading of the clock; the readings
  are parameters of the functions that make them, in the order of the source lines.
\<close>

subsection \<open>Data\<close>

datatype error = IndexError | KeyError | AttributeError | ValueError | OSError

text \<open>
  An incoming mido message. \<^verbatim>\<open>program_change\<close> carries channel and program,
  \<^verbatim>\<open>control_change\<close> carries channel, control and value. Any other message type
  either has a channel (note on, pitch wheel, ...) or has none (clock, sysex, ...), in
  which case reading \<^verbatim>\<open>message.channel\<close> raises AttributeError.
\<close>

datatype message =
    Program_change int int
  | Control_change int int int
  | Other_message "int option"

text \<open>The messages written to \<^verbatim>\<open>outport\<close>: (channel, program) and (channel, control, value).\<close>

datatype out_message =
    Out_program_change int int
  | Out_control_change int int int

text \<open>
  \<^verbatim>\<open>ts_history\<close> and \<^verbatim>\<open>program_history\<close> are deques created with three entries
  (\<^verbatim>\<open>deque([x] * 3)\<close>) and only ever changed by \<^verbatim>\<open>popleft()\<close> followed by
  \<^verbatim>\<open>append(x)\<close>, so they hold three entries at every moment: a triple, oldest first.
\<close>

type_synonym 'a deque3 = "'a \<times> 'a \<times> 'a"

fun popleft_append :: "'a deque3 \<Rightarrow> 'a \<Rightarrow> 'a deque3" where
  "popleft_append (a, b, c) x = (b, c, x)"

fun oldest :: "'a deque3 \<Rightarrow> 'a" where
  "oldest (a, b, c) = a"

fun newest :: "'a deque3 \<Rightarrow> 'a" where
  "newest (a, b, c) = c"

fun all_equal :: "'a deque3 \<Rightarrow> bool" where
  "all_equal (a, b, c) = (a = b \<and> b = c)"

text \<open>
  The attributes of a \<^verbatim>\<open>ProgramMapper\<close>, together with the two collaborators it
  writes to: \<open>outport\<close> is the list of messages sent so far (oldest first),
  \<open>state_file\<close> is the content of the JSON file (\<open>None\<close> when opening it for
  reading raises FileNotFoundError) and \<open>file_writable\<close> tells whether
  \<^verbatim>\<open>open(self.state_file, "w")\<close> succeeds: it fails with an OSError when the directory
  is missing (FileNotFoundError) or may not be written (PermissionError). The mapper
  never changes \<open>file_writable\<close>.
\<close>

record mapper =
  in_channel :: int
  out_channel :: int
  n_loops :: int
  bank_size :: int
  n_banks :: int
  tripletap_time :: int
  programs :: "bool list list"
  edit_mode :: bool
  active_program :: int
  active_state :: "bool list"
  ts_history :: "int deque3"
  program_history :: "int deque3"
  last_ts :: int
  outport :: "out_message list"
  state_file :: "bool list list option"
  file_writable :: bool

text \<open>
  A call either returns (\<open>Inr\<close>, the mapper after the call) or raises (\<open>Inl\<close>, the
  exception and the mapper as it is when the exception leaves the method: what was
  assigned, sent and saved before stays so).
\<close>

type_synonym result = "(error \<times> mapper) + mapper"

fun final :: "result \<Rightarrow> mapper" where
  "final (Inl (e, s)) = s"
| "final (Inr s) = s"

subsection \<open>Python list indexing\<close>

text \<open>
  \<^verbatim>\<open>xs[i]\<close>: a negative index counts from the end, an index outside
  \<open>-len(xs) .. len(xs) - 1\<close> raises IndexError (here \<open>None\<close>).
\<close>

definition py_index :: "'a list \<Rightarrow> int \<Rightarrow> nat option" where
  "py_index xs i =
     (let n = int (length xs)
      in if 0 \<le> i \<and> i < n then Some (nat i)
         else if - n \<le> i \<and> i < 0 then Some (nat (n + i))
         else None)"

subsection \<open>Program encoding and apply\_program\<close>

text \<open>
  The dictionary \<^verbatim>\<open>looper_programs\<close>; its keys are the four pairs of booleans. The
  key looked up is \<^verbatim>\<open>tuple(slice)\<close>, here the list of the slice; any key that is not
  one of the four pairs raises KeyError (\<open>None\<close>).
\<close>

fun looper_programs :: "bool list \<Rightarrow> int option" where
  "looper_programs [False, False] = Some 0"
| "looper_programs [True, False] = Some 1"
| "looper_programs [False, True] = Some 2"
| "looper_programs [True, True] = Some 3"
| "looper_programs _ = None"

text \<open>
  Lines 159 to 161 of \<^verbatim>\<open>apply_program\<close>: \<^verbatim>\<open>active_state[:2]\<close> is \<open>take 2\<close>,
  \<^verbatim>\<open>active_state[2:]\<close> is \<open>drop 2\<close>.
\<close>

definition looper_program :: "bool list \<Rightarrow> error + int" where
  "looper_program st =
     (case looper_programs (take 2 st) of
        None \<Rightarrow> Inl KeyError
      | Some l \<Rightarrow>
          (let digit_left = 1 + l
           in case looper_programs (drop 2 st) of
                None \<Rightarrow> Inl KeyError
              | Some digit_right \<Rightarrow> Inr (10 * digit_left + digit_right)))"

text \<open>
  \<^verbatim>\<open>mido.Message(channel=...)\<close> checks its arguments and raises ValueError for a
  channel outside 0..15. The other arguments the mapper passes are always in range: the
  program is between 10 and 43, the control between 80 and 83, the value 0 or 127.
\<close>

definition check_channel :: "int \<Rightarrow> bool" where
  "check_channel ch \<longleftrightarrow> 0 \<le> ch \<and> ch \<le> 15"

text \<open>
  \<^verbatim>\<open>apply_program\<close>: the message is built (lines 163 to 165) after
  \<open>active_state\<close> is assigned, and sent only when it could be built.
\<close>

definition apply_program :: "mapper \<Rightarrow> result" where
  "apply_program s =
     (case py_index (programs s) (active_program s) of
        None \<Rightarrow> Inl (IndexError, s)
      | Some i \<Rightarrow>
          (let s1 = s\<lparr>active_state := programs s ! i\<rparr>
           in case looper_program (active_state s1) of
                Inl e \<Rightarrow> Inl (e, s1)
              | Inr p \<Rightarrow>
                  if check_channel (out_channel s1)
                  then Inr (s1\<lparr>outport := outport s1 @
                               [Out_program_change (out_channel s1) p]\<rparr>)
                  else Inl (ValueError, s1)))"

text \<open>
  \<^verbatim>\<open>save_programs\<close>: when the file cannot be opened for writing, \<^verbatim>\<open>open\<close> raises
  and nothing is written.
\<close>

definition save_programs :: "mapper \<Rightarrow> result" where
  "save_programs s =
     (if file_writable s then Inr (s\<lparr>state_file := Some (programs s)\<rparr>)
      else Inl (OSError, s))"

subsection \<open>Construction\<close>

text \<open>
  \<^verbatim>\<open>__init__\<close>. \<open>port\<close> is what the output port has received so far, \<open>file\<close> the
  content of the state file (\<open>None\<close>: opening it raises FileNotFoundError),
  \<open>writable\<close> whether the file can be opened for writing,
  \<open>now1\<close> and \<open>now2\<close> the clock readings of lines 71 and 73. \<^verbatim>\<open>range(n)\<close> is empty
  for a negative \<open>n\<close>. The attributes that the source assigns after
  \<^verbatim>\<open>apply_program()\<close> do not depend on it and are written into the record at once;
  \<open>active_state\<close>, which does not exist before \<^verbatim>\<open>apply_program()\<close> assigns
  it, starts empty and is never read before that.
\<close>

definition ProgramMapper_init ::
  "out_message list \<Rightarrow> bool list list option \<Rightarrow> bool \<Rightarrow> int \<Rightarrow> int \<Rightarrow> int \<Rightarrow> int \<Rightarrow> int
     \<Rightarrow> int \<Rightarrow> int \<Rightarrow> int \<Rightarrow> result" where
  "ProgramMapper_init port file writable in_ch out_ch loops bsize banks tripletap now1 now2 =
     (let s0 = \<lparr>in_channel = in_ch, out_channel = out_ch, n_loops = loops,
                bank_size = bsize, n_banks = banks, tripletap_time = tripletap,
                programs = [], edit_mode = False, active_program = 0, active_state = [],
                ts_history = (now1, now1, now1), program_history = (- 1, - 1, - 1),
                last_ts = now2, outport = port, state_file = file,
                file_writable = writable\<rparr>
      in case (case file of
                 Some table \<Rightarrow> Inr (s0\<lparr>programs := table\<rparr>)
               | None \<Rightarrow>
                   save_programs
                     (s0\<lparr>programs :=
                           replicate (nat (bsize * banks)) (replicate (nat loops) False)\<rparr>)) of
           Inl e \<Rightarrow> Inl e
         | Inr s1 \<Rightarrow>
             (case apply_program s1 of
                Inl e \<Rightarrow> Inl e
              | Inr s2 \<Rightarrow>
                  (case py_index (programs s2) (active_program s2) of
                     None \<Rightarrow> Inl (IndexError, s2)
                   | Some i \<Rightarrow> Inr (s2\<lparr>active_state := programs s2 ! i\<rparr>))))"

subsection \<open>handle\<close>

text \<open>Lines 85 to 90: a program change is pushed into both histories.\<close>

fun record_program_change :: "int \<Rightarrow> message \<Rightarrow> mapper \<Rightarrow> mapper" where
  "record_program_change now3 (Program_change ch program) s =
     s\<lparr>ts_history := popleft_append (ts_history s) now3,
       program_history := popleft_append (program_history s) program\<rparr>"
| "record_program_change now3 _ s = s"

text \<open>
  Lines 104 to 112, the edit of the active program: the flag is flipped in the table,
  then \<^verbatim>\<open>apply_program()\<close>, then \<^verbatim>\<open>save_programs()\<close>.
\<close>

definition edit_program :: "int \<Rightarrow> mapper \<Rightarrow> result" where
  "edit_program control s =
     (let p = active_program s;
          loop = 3 - control + 80
      in case py_index (programs s) p of
           None \<Rightarrow> Inl (IndexError, s)
         | Some i \<Rightarrow>
             (case py_index (programs s ! i) loop of
                None \<Rightarrow> Inl (IndexError, s)
              | Some j \<Rightarrow>
                  (let loop_state = \<not> programs s ! i ! j;
                       s1 = s\<lparr>programs := (programs s)[i := (programs s ! i)[j := loop_state]]\<rparr>
                   in case apply_program s1 of
                        Inl e \<Rightarrow> Inl e
                      | Inr s2 \<Rightarrow> save_programs s2)))"

text \<open>
  Lines 143 to 152, the manual toggle: \<^verbatim>\<open>127 * True\<close> is 127, \<^verbatim>\<open>127 * False\<close> is 0.
  The flag is flipped (line 144) before the message is built, so a ValueError of
  \<^verbatim>\<open>mido.Message\<close> leaves the flag flipped and nothing sent.
\<close>

definition toggle_loop :: "int \<Rightarrow> mapper \<Rightarrow> result" where
  "toggle_loop control s =
     (let loop = 3 - control + 80
      in case py_index (active_state s) loop of
           None \<Rightarrow> Inl (IndexError, s)
         | Some j \<Rightarrow>
             (let s1 = s\<lparr>active_state := (active_state s)[j := \<not> active_state s ! j]\<rparr>
              in if check_channel (out_channel s1)
                 then Inr (s1\<lparr>outport := outport s1 @
                             [Out_control_change (out_channel s1) (80 + loop)
                                (if active_state s1 ! j then 127 else 0)]\<rparr>)
                 else Inl (ValueError, s1)))"

text \<open>Lines 92 to 112, the branch taken in edit mode.\<close>

fun handle_edit :: "message \<Rightarrow> mapper \<Rightarrow> result" where
  "handle_edit (Program_change ch program) s =
     (if newest (program_history s) \<noteq> active_program s
      then Inr (s\<lparr>edit_mode := False\<rparr>)
      else Inr s)"
| "handle_edit (Control_change ch control v) s =
     (if 80 \<le> control \<and> control \<le> 83 then edit_program control s else Inr s)"
| "handle_edit (Other_message ch) s = Inr s"

text \<open>
  Lines 115 to 155, the branch taken in program mode. The log line of the program
  switch reads \<^verbatim>\<open>self.programs[message.program]\<close> before \<^verbatim>\<open>apply_program()\<close> does:
  it raises the same IndexError on the same state, so it adds no case.
\<close>

fun handle_normal :: "message \<Rightarrow> mapper \<Rightarrow> result" where
  "handle_normal (Program_change ch program) s =
     (if newest (ts_history s) - oldest (ts_history s) \<le> tripletap_time s
         \<and> all_equal (program_history s)
      then Inr (s\<lparr>edit_mode := True, active_program := program\<rparr>)
      else if active_program s \<noteq> program
      then apply_program (s\<lparr>active_program := program\<rparr>)
      else Inr s)"
| "handle_normal (Control_change ch control v) s =
     (if 80 \<le> control \<and> control \<le> 83 then toggle_loop control s else Inr s)"
| "handle_normal (Other_message ch) s = Inr s"

fun channel :: "message \<Rightarrow> int option" where
  "channel (Program_change ch program) = Some ch"
| "channel (Control_change ch control v) = Some ch"
| "channel (Other_message ch) = ch"

text \<open>
  \<^verbatim>\<open>handle(message)\<close>; \<open>now1\<close>, \<open>now2\<close> and \<open>now3\<close> are the clock readings of lines
  78, 82 and 87.
\<close>

definition handle :: "int \<Rightarrow> int \<Rightarrow> int \<Rightarrow> message \<Rightarrow> mapper \<Rightarrow> result" where
  "handle now1 now2 now3 message s =
     (let lts = last_ts s;
          s1 = s\<lparr>last_ts := now1\<rparr>
      in if last_ts s1 - lts < 100000 then Inr s1
         else (case channel message of
                 None \<Rightarrow> Inl (AttributeError, s1)
               | Some ch \<Rightarrow>
                   if ch = in_channel s1 \<and> now2 - newest (ts_history s1) > 100000
                   then (let s2 = record_program_change now3 message s1
                         in if edit_mode s2 then handle_edit message s2
                            else handle_normal message s2)
                   else Inr s1))"

text \<open>
  The main loop, \<^verbatim>\<open>for message in inport: mapper.handle(message)\<close>: an event is a
  message with the three clock readings of its call of \<^verbatim>\<open>handle\<close>; an exception ends
  the loop.
\<close>

type_synonym event = "int \<times> int \<times> int \<times> message"

fun run :: "event list \<Rightarrow> mapper \<Rightarrow> result" where
  "run [] s = Inr s"
| "run ((now1, now2, now3, message) # es) s =
     (case handle now1 now2 now3 message s of
        Inl e \<Rightarrow> Inl e
      | Inr s' \<Rightarrow> run es s')"

subsection \<open>Notions used by the properties\<close>

text \<open>
  An event is admitted when it passes line 79 (it arrives at least 100 ms after the
  previous call of \<^verbatim>\<open>handle\<close>) and line 82 (it is on the input channel, and the clock
  reads more than 100 ms after the newest entry of \<^verbatim>\<open>ts_history\<close>).
\<close>

definition admitted :: "int \<Rightarrow> int \<Rightarrow> message \<Rightarrow> mapper \<Rightarrow> bool" where
  "admitted now1 now2 message s \<longleftrightarrow>
     \<not> now1 - last_ts s < 100000
     \<and> channel message = Some (in_channel s)
     \<and> now2 - newest (ts_history s) > 100000"

text \<open>
  The triple-tap condition in the words of the specification: once the event is pushed
  into the history, all three program entries equal the event's program and the newest
  timestamp minus the oldest is at most the triple-tap window.
\<close>

definition tripletap :: "int \<Rightarrow> int \<Rightarrow> mapper \<Rightarrow> bool" where
  "tripletap now3 p s \<longleftrightarrow>
     popleft_append (program_history s) p = (p, p, p)
     \<and> newest (popleft_append (ts_history s) now3)
         - oldest (popleft_append (ts_history s) now3) \<le> tripletap_time s"

text \<open>The digit table of the specification, section 4.3.\<close>

fun pair_digit :: "bool \<Rightarrow> bool \<Rightarrow> int" where
  "pair_digit False False = 0"
| "pair_digit True False = 1"
| "pair_digit False True = 2"
| "pair_digit True True = 3"

text \<open>ActiveState equals ProgramTable[active\_program].\<close>

definition in_sync :: "mapper \<Rightarrow> bool" where
  "in_sync s \<longleftrightarrow>
     map_option (nth (programs s)) (py_index (programs s) (active_program s))
       = Some (active_state s)"

text \<open>
  The mapper that the defaults of \<^verbatim>\<open>__init__\<close> build when there is no state file, the
  file can be written and the clock reads 0: 36 programs of 4 loops, all off, and the program change 10 already
  sent on channel 3.
\<close>

definition fresh :: mapper where
  "fresh =
     \<lparr>in_channel = 0, out_channel = 3, n_loops = 4, bank_size = 4, n_banks = 9,
      tripletap_time = 1000000,
      programs = replicate 36 [False, False, False, False],
      edit_mode = False, active_program = 0,
      active_state = [False, False, False, False],
      ts_history = (0, 0, 0), program_history = (- 1, - 1, - 1), last_ts = 0,
      outport = [Out_program_change 3 10],
      state_file = Some (replicate 36 [False, False, False, False]),
      file_writable = True\<rparr>"

text \<open>
  A run of events in which each arrives less than 100 ms after the one before (the first
  after \<open>prev\<close>), and the arrival time of the last of them.
\<close>

fun rapid :: "int \<Rightarrow> event list \<Rightarrow> bool" where
  "rapid prev [] = True"
| "rapid prev ((now1, now2, now3, message) # es) = (now1 - prev < 100000 \<and> rapid now1 es)"

fun last_arrival :: "int \<Rightarrow> event list \<Rightarrow> int" where
  "last_arrival prev [] = prev"
| "last_arrival prev ((now1, now2, now3, message) # es) = last_arrival now1 es"

text \<open>
  A MIDI data byte is between 0 and 127: mido delivers no program number outside this
  range.
\<close>

fun valid_program :: "message \<Rightarrow> bool" where
  "valid_program (Program_change ch program) = (0 \<le> program \<and> program \<le> 127)"
| "valid_program _ = True"

text \<open>
  What the program history says about the active program in every mapper reached from
  construction: in edit mode the newest entry is the active program; in program mode the
  two newest entries, when they are the same MIDI program, are the active program.
\<close>

definition history_inv :: "mapper \<Rightarrow> bool" where
  "history_inv s \<longleftrightarrow>
     (case program_history s of
        (a, b, c) \<Rightarrow>
          if edit_mode s then c = active_program s
          else (b = c \<and> 0 \<le> c \<longrightarrow> c = active_program s))"

section \<open>Properties\<close>

subsection \<open>Auxiliary facts\<close>

lemma py_index_bound: "py_index xs k = Some i \<Longrightarrow> i < length xs"
  by (auto simp: py_index_def Let_def split: if_splits)

lemma py_index_update [simp]: "py_index (xs[i := v]) k = py_index xs k"
  by (simp add: py_index_def)

lemma py_index_nat: "0 \<le> k \<Longrightarrow> k < int (length xs) \<Longrightarrow> py_index xs k = Some (nat k)"
  by (simp add: py_index_def)

lemma handle_admitted:
  "admitted now1 now2 message s \<Longrightarrow>
   handle now1 now2 now3 message s =
     (let s2 = record_program_change now3 message (s\<lparr>last_ts := now1\<rparr>)
      in if edit_mode s2 then handle_edit message s2 else handle_normal message s2)"
  by (cases message) (auto simp: handle_def admitted_def Let_def)

lemma looper_program_four:
  "looper_program [a, b, c, d] =
     Inr (10 * (1 + (if a then 1 else 0) + (if b then 2 else 0))
            + ((if c then 1 else 0) + (if d then 2 else 0)))"
  by (cases a; cases b; cases c; cases d) (simp_all add: looper_program_def)

lemma replicate_four: "replicate 4 x = [x, x, x, x]"
  by (simp add: eval_nat_numeral)

lemma init_default: "ProgramMapper_init [] None True 0 3 4 4 9 1000000 0 0 = Inr fresh"
  by (simp add: ProgramMapper_init_def fresh_def save_programs_def apply_program_def
      py_index_def looper_program_four replicate_four check_channel_def)

subsection \<open>Editing a program\<close>

text \<open>
  C1, as the code has it. In edit mode on a program whose four loops are all off, an
  admitted control change on control 82 turns loop 1 of that program on in the table,
  sends exactly one program change, and writes the whole updated table to the state
  file. The program number sent is the encoding of (off, on, off, off), which is
  10 * (1 + 2) + 0 = 30. The output channel is a MIDI channel, as it is in every mapper
  that was constructed (\<open>init_out_channel\<close>, \<open>run_out_channel\<close>), and the state file
  can be opened for writing; what happens otherwise is \<open>edit_program_bad_channel\<close>
  and \<open>edit_program_unwritable\<close>.
\<close>

theorem edit_control_82:
  assumes "edit_mode s"
    and "py_index (programs s) (active_program s) = Some i"
    and "programs s ! i = [False, False, False, False]"
    and "admitted now1 now2 (Control_change ch 82 v) s"
    and "check_channel (out_channel s)"
    and "file_writable s"
  shows "handle now1 now2 now3 (Control_change ch 82 v) s =
           Inr (s\<lparr>last_ts := now1,
                  programs := (programs s)[i := [False, True, False, False]],
                  active_state := [False, True, False, False],
                  outport := outport s @ [Out_program_change (out_channel s) 30],
                  state_file := Some ((programs s)[i := [False, True, False, False]])\<rparr>)"
proof -
  have i: "i < length (programs s)"
    using assms(2) by (rule py_index_bound)
  show ?thesis
    using assms i
    by (simp add: handle_admitted edit_program_def apply_program_def save_programs_def
        looper_program_four py_index_nat)
qed

theorem edit_control_82_witness:
  "handle 200000 200000 200000 (Control_change 0 82 127) (fresh\<lparr>edit_mode := True\<rparr>) =
     Inr (fresh\<lparr>edit_mode := True, last_ts := 200000,
                programs := (replicate 36 [False, False, False, False])
                              [0 := [False, True, False, False]],
                active_state := [False, True, False, False],
                outport := [Out_program_change 3 10, Out_program_change 3 30],
                state_file := Some ((replicate 36 [False, False, False, False])
                                      [0 := [False, True, False, False]])\<rparr>)"
  using edit_control_82 [of "fresh\<lparr>edit_mode := True\<rparr>" 0 200000 200000 0 127 200000]
  by (simp add: fresh_def admitted_def py_index_def check_channel_def)

text \<open>
  C1 as written asks for the program number 12. On the default table, in edit mode on
  program 0, control 82 sends 30 and not 12.
\<close>

theorem edit_control_82_counterexample:
  "outport (final (handle 200000 200000 200000 (Control_change 0 82 127)
                     (fresh\<lparr>edit_mode := True\<rparr>)))
     = outport (fresh\<lparr>edit_mode := True\<rparr>) @ [Out_program_change 3 30]
   \<and> outport (final (handle 200000 200000 200000 (Control_change 0 82 127)
                       (fresh\<lparr>edit_mode := True\<rparr>)))
     \<noteq> outport (fresh\<lparr>edit_mode := True\<rparr>) @ [Out_program_change 3 12]"
  by (simp add: handle_def edit_program_def apply_program_def save_programs_def
      looper_program_four py_index_def fresh_def check_channel_def)

subsection \<open>Program encoding\<close>

lemma looper_program_pair_digit:
  "looper_program [a, b, c, d] = Inr (10 * (pair_digit a b + 1) + pair_digit c d)"
  by (cases a; cases b; cases c; cases d) (simp_all add: looper_program_def)

lemma length_four: "length xs = 4 \<Longrightarrow> xs = [xs ! 0, xs ! 1, xs ! 2, xs ! 3]"
  by (cases xs; cases "tl xs"; cases "tl (tl xs)"; cases "tl (tl (tl xs))") auto

text \<open>
  C2, as the code has it. For every loop configuration of exactly four flags, the
  encoding is 10 * (left digit + 1) + right digit, with the left digit read from flags 0
  and 1 and the right digit from flags 2 and 3 in the table of the specification, and
  \<^verbatim>\<open>apply_program\<close> sends it as one program change on the output channel, which is
  a MIDI channel (0 to 15) in every mapper that was constructed (\<open>init_out_channel\<close>,
  \<open>run_out_channel\<close>); with any other channel nothing is sent
  (\<open>apply_program_bad_channel\<close>).
\<close>

theorem encoding_of_four_flags:
  assumes "length st = 4"
  shows "looper_program st
           = Inr (10 * (pair_digit (st ! 0) (st ! 1) + 1) + pair_digit (st ! 2) (st ! 3))
         \<and> (py_index (programs s) (active_program s) = Some i \<and> programs s ! i = st
              \<and> check_channel (out_channel s)
              \<longrightarrow> apply_program s =
                    Inr (s\<lparr>active_state := st,
                           outport := outport s @
                             [Out_program_change (out_channel s)
                                (10 * (pair_digit (st ! 0) (st ! 1) + 1)
                                 + pair_digit (st ! 2) (st ! 3))]\<rparr>))"
proof -
  have enc: "looper_program st
               = Inr (10 * (pair_digit (st ! 0) (st ! 1) + 1) + pair_digit (st ! 2) (st ! 3))"
    using looper_program_pair_digit [of "st ! 0" "st ! 1" "st ! 2" "st ! 3"]
      length_four [OF assms] by simp
  show ?thesis
    using enc by (simp add: apply_program_def)
qed

theorem encoding_of_four_flags_witness:
  "looper_program [True, False, True, True] = Inr 23
   \<and> apply_program (fresh\<lparr>programs := [[True, False, True, True]]\<rparr>) =
       Inr (fresh\<lparr>programs := [[True, False, True, True]],
                  active_state := [True, False, True, True],
                  outport := [Out_program_change 3 10, Out_program_change 3 23]\<rparr>)"
  using encoding_of_four_flags [of "[True, False, True, True]"
      "fresh\<lparr>programs := [[True, False, True, True]]\<rparr>" 0]
  by (simp add: fresh_def py_index_def check_channel_def)

text \<open>
  C2 as written covers every configuration of four flags or more. With five flags the
  right-hand slice has three entries, which is no key of \<^verbatim>\<open>looper_programs\<close>: the
  encoding raises KeyError and nothing is sent.
\<close>

theorem encoding_of_five_flags_counterexample:
  "4 \<le> length [False, False, False, False, False]
   \<and> looper_program [False, False, False, False, False] = Inl KeyError
   \<and> apply_program (fresh\<lparr>programs := [[False, False, False, False, False]]\<rparr>) =
       Inl (KeyError,
            fresh\<lparr>programs := [[False, False, False, False, False]],
                  active_state := [False, False, False, False, False]\<rparr>)"
  by (simp add: looper_program_def apply_program_def py_index_def fresh_def)

subsection \<open>Debounce\<close>

text \<open>
  C4, as the code has it. An event that arrives less than 100 ms after the previous call
  of \<^verbatim>\<open>handle\<close> is rejected whatever its type, channel or content: nothing is sent and
  nothing changes except the debounce clock \<^verbatim>\<open>last_ts\<close>, which is set to the arrival
  time of the rejected event.
\<close>

theorem debounce_rejects:
  assumes "now1 - last_ts s < 100000"
  shows "handle now1 now2 now3 message s = Inr (s\<lparr>last_ts := now1\<rparr>)"
  using assms by (simp add: handle_def)

theorem debounce_rejects_witness:
  "handle 50000 50000 50000 (Program_change 0 5) fresh = Inr (fresh\<lparr>last_ts := 50000\<rparr>)"
  using debounce_rejects [of 50000 fresh 50000 50000 "Program_change 0 5"]
  by (simp add: fresh_def)

text \<open>
  C4 as written says that no state change occurs. The rejected event moves the debounce
  clock, and the next event is measured against it: on the default mapper (clock 0) an
  event at 50 ms is rejected and leaves the clock at 50 ms, so an event at 120 ms is
  rejected as well, although it arrives 120 ms after the last event that was let through.
\<close>

theorem debounce_no_change_counterexample:
  "handle 50000 50000 50000 (Program_change 0 5) fresh \<noteq> Inr fresh
   \<and> run [(50000, 50000, 50000, Program_change 0 5),
           (120000, 120000, 120000, Program_change 0 5)] fresh
       = Inr (fresh\<lparr>last_ts := 120000\<rparr>)
   \<and> run [(120000, 120000, 120000, Program_change 0 5)] fresh
       \<noteq> Inr (fresh\<lparr>last_ts := 120000\<rparr>)"
  by (simp add: handle_def fresh_def apply_program_def py_index_def looper_program_four
        check_channel_def)

subsection \<open>Dispatch in edit mode\<close>

text \<open>
  C7. In edit mode on program \<open>p\<close>, an admitted program change to another program
  leaves edit mode and does nothing else: the table, the active program, the active
  state, the messages sent and the state file are as before. Only the bookkeeping of
  the admission (debounce clock and history) moves.
\<close>

theorem edit_exit:
  assumes "edit_mode s"
    and "active_program s = p"
    and "q \<noteq> p"
    and "admitted now1 now2 (Program_change ch q) s"
  shows "handle now1 now2 now3 (Program_change ch q) s =
           Inr (s\<lparr>last_ts := now1,
                  ts_history := popleft_append (ts_history s) now3,
                  program_history := popleft_append (program_history s) q,
                  edit_mode := False\<rparr>)"
  using assms
  by (cases "program_history s") (simp add: handle_admitted)

theorem edit_exit_witness:
  "handle 200000 200000 200000 (Program_change 0 7) (fresh\<lparr>edit_mode := True\<rparr>) =
     Inr (fresh\<lparr>last_ts := 200000, ts_history := (0, 0, 200000),
                program_history := (- 1, - 1, 7), edit_mode := False\<rparr>)"
  using edit_exit [of "fresh\<lparr>edit_mode := True\<rparr>" 0 7 200000 200000 0 200000]
  by (simp add: fresh_def admitted_def)

text \<open>
  C10. In edit mode on program \<open>p\<close>, an admitted program change to \<open>p\<close> itself stays
  in edit mode and changes nothing but the debounce clock and the history.
\<close>

theorem edit_same_program:
  assumes "edit_mode s"
    and "active_program s = p"
    and "admitted now1 now2 (Program_change ch p) s"
  shows "handle now1 now2 now3 (Program_change ch p) s =
           Inr (s\<lparr>last_ts := now1,
                  ts_history := popleft_append (ts_history s) now3,
                  program_history := popleft_append (program_history s) p\<rparr>)"
  using assms
  by (cases "program_history s") (simp add: handle_admitted)

theorem edit_same_program_witness:
  "handle 200000 200000 200000 (Program_change 0 0) (fresh\<lparr>edit_mode := True\<rparr>) =
     Inr (fresh\<lparr>edit_mode := True, last_ts := 200000, ts_history := (0, 0, 200000),
                program_history := (- 1, - 1, 0)\<rparr>)"
  using edit_same_program [of "fresh\<lparr>edit_mode := True\<rparr>" 0 200000 200000 0 200000]
  by (simp add: fresh_def admitted_def)

subsection \<open>Dispatch in program mode\<close>

text \<open>
  C6. In program mode, an admitted control change on a control \<open>c\<close> from 80 to 83
  flips the flag \<open>3 - (c - 80)\<close> of the active state and no other, sends exactly one
  control change with the output channel, control 80 + loop and value 127 when the loop
  is now on and 0 when it is now off, and leaves the table and the state file as they
  are. (The flag exists: the active state of a mapper that was constructed has four
  flags, see \<open>init_invariants\<close> and \<open>run_invariants\<close>. The output channel is a
  MIDI channel, 0 to 15: so it is in every mapper that was constructed, see
  \<open>init_out_channel\<close> and \<open>run_out_channel\<close>; with any other channel the flag is
  flipped and nothing is sent, see \<open>toggle_loop_bad_channel\<close>.)
\<close>

theorem manual_toggle:
  assumes "\<not> edit_mode s"
    and "80 \<le> c" and "c \<le> 83"
    and "admitted now1 now2 (Control_change ch c v) s"
    and "nat (3 - (c - 80)) < length (active_state s)"
    and "check_channel (out_channel s)"
  shows "handle now1 now2 now3 (Control_change ch c v) s =
           Inr (s\<lparr>last_ts := now1,
                  active_state := (active_state s)
                    [nat (3 - (c - 80)) := \<not> active_state s ! nat (3 - (c - 80))],
                  outport := outport s @
                    [Out_control_change (out_channel s) (80 + (3 - (c - 80)))
                       (if \<not> active_state s ! nat (3 - (c - 80)) then 127 else 0)]\<rparr>)"
proof -
  have loop: "3 - c + 80 = 3 - (c - 80)"
    by simp
  have idx: "py_index (active_state s) (3 - (c - 80)) = Some (nat (3 - (c - 80)))"
    using assms(2,3,5) by (intro py_index_nat) auto
  show ?thesis
    using assms(1,4,5,6) idx
    by (simp add: handle_admitted assms(2,3) toggle_loop_def loop Let_def)
qed

theorem manual_toggle_witness:
  "handle 200000 200000 200000 (Control_change 0 83 127) fresh =
     Inr (fresh\<lparr>last_ts := 200000, active_state := [True, False, False, False],
                outport := [Out_program_change 3 10, Out_control_change 3 80 127]\<rparr>)"
  using manual_toggle [of fresh 83 200000 200000 0 127 200000]
  by (simp add: fresh_def admitted_def check_channel_def)

lemma apply_program_frame:
  "edit_mode (final (apply_program s)) = edit_mode s"
  "active_program (final (apply_program s)) = active_program s"
  "programs (final (apply_program s)) = programs s"
  "state_file (final (apply_program s)) = state_file s"
  "last_ts (final (apply_program s)) = last_ts s"
  "ts_history (final (apply_program s)) = ts_history s"
  "program_history (final (apply_program s)) = program_history s"
  by (simp_all add: apply_program_def Let_def split: option.splits sum.splits if_splits)

text \<open>
  C3. In program mode, an admitted program change to \<open>p\<close> ends in edit mode with
  active program \<open>p\<close> exactly when the triple-tap condition holds once the event is in
  the history. The condition is tested first: when it holds the mapper enters edit mode
  and sends nothing, also when \<open>p\<close> differs from the active program and the plain
  program switch would apply.
\<close>

theorem triple_tap_enters_edit:
  assumes "\<not> edit_mode s"
    and "admitted now1 now2 (Program_change ch p) s"
  shows "((edit_mode (final (handle now1 now2 now3 (Program_change ch p) s))
            \<and> active_program (final (handle now1 now2 now3 (Program_change ch p) s)) = p)
          \<longleftrightarrow> tripletap now3 p s)
         \<and> (tripletap now3 p s \<longrightarrow>
              handle now1 now2 now3 (Program_change ch p) s =
                Inr (s\<lparr>last_ts := now1,
                       ts_history := popleft_append (ts_history s) now3,
                       program_history := popleft_append (program_history s) p,
                       edit_mode := True, active_program := p\<rparr>))"
proof (cases "tripletap now3 p s")
  case True
  then show ?thesis
    using assms
    by (cases "program_history s"; cases "ts_history s")
       (auto simp: handle_admitted tripletap_def)
next
  case False
  then have "\<not> edit_mode (final (handle now1 now2 now3 (Program_change ch p) s))"
    using assms
    by (cases "program_history s"; cases "ts_history s")
       (auto simp: handle_admitted tripletap_def apply_program_frame Let_def
          split: if_splits)
  with False show ?thesis
    by simp
qed

theorem triple_tap_enters_edit_witness:
  "handle 900000 900000 900000 (Program_change 0 5)
     (fresh\<lparr>active_program := 5, ts_history := (0, 200000, 500000),
            program_history := (- 1, 5, 5), last_ts := 500000\<rparr>) =
   Inr (fresh\<lparr>active_program := 5, ts_history := (200000, 500000, 900000),
              program_history := (5, 5, 5), last_ts := 900000, edit_mode := True\<rparr>)"
  using triple_tap_enters_edit
    [of "fresh\<lparr>active_program := 5, ts_history := (0, 200000, 500000),
               program_history := (- 1, 5, 5), last_ts := 500000\<rparr>"
        900000 900000 0 5 900000]
  by (simp add: fresh_def admitted_def tripletap_def)

subsection \<open>Construction\<close>

text \<open>
  C8, as the code has it. When there is no state file, construction builds the table of
  \<open>n_banks * bank_size\<close> configurations of \<open>n_loops\<close> flags, all off. When the
  state file can be opened for writing, that table is written to it, for every
  configuration, also for one with which \<^verbatim>\<open>apply_program()\<close> then raises: the file
  is written before. When the state file cannot be opened for writing, construction
  raises OSError, nothing is written and nothing is sent.
\<close>

theorem init_without_saved_state:
  "programs (final (ProgramMapper_init port None writable in_ch out_ch loops bsize banks tt
                      now1 now2))
     = replicate (nat (banks * bsize)) (replicate (nat loops) False)
   \<and> (writable \<longrightarrow>
        state_file (final (ProgramMapper_init port None writable in_ch out_ch loops bsize
                             banks tt now1 now2))
          = Some (replicate (nat (banks * bsize)) (replicate (nat loops) False)))
   \<and> (\<not> writable \<longrightarrow>
        (\<exists>s. ProgramMapper_init port None writable in_ch out_ch loops bsize banks tt
                now1 now2 = Inl (OSError, s)
             \<and> state_file s = None \<and> outport s = port))"
  by (auto simp: ProgramMapper_init_def Let_def save_programs_def apply_program_def
      mult.commute split: option.splits sum.splits if_splits)

theorem init_without_saved_state_witness:
  "ProgramMapper_init [] None True 0 3 4 4 9 1000000 0 0 = Inr fresh
   \<and> programs fresh = replicate 36 (replicate 4 False)
   \<and> state_file fresh = Some (replicate 36 (replicate 4 False))
   \<and> state_file (final (ProgramMapper_init [] None False 0 3 4 4 9 1000000 0 0)) = None"
  using init_without_saved_state [of "[]" True 0 3 4 4 9 1000000 0 0]
    init_without_saved_state [of "[]" False 0 3 4 4 9 1000000 0 0] init_default
  by auto

text \<open>
  C8 as written has the default table written whenever there is no saved state. With the
  default configuration and a state file that cannot be opened for writing (its
  directory is missing, which also makes the read fail with FileNotFoundError),
  construction raises and the state file is still absent.
\<close>

theorem init_unwritable_counterexample:
  "ProgramMapper_init [] None False 0 3 4 4 9 1000000 0 0
     = Inl (OSError,
            fresh\<lparr>outport := [], state_file := None, file_writable := False,
                  active_state := []\<rparr>)
   \<and> state_file (final (ProgramMapper_init [] None False 0 3 4 4 9 1000000 0 0)) = None"
  by (simp add: ProgramMapper_init_def fresh_def save_programs_def replicate_four)

subsection \<open>The debounce clock\<close>

lemma edit_program_last_ts: "last_ts (final (edit_program control s)) = last_ts s"
  by (auto simp: edit_program_def Let_def save_programs_def apply_program_def
      split: option.splits sum.splits if_splits)

lemma toggle_loop_last_ts: "last_ts (final (toggle_loop control s)) = last_ts s"
  by (simp add: toggle_loop_def Let_def split: option.splits if_splits)

lemma handle_edit_last_ts: "last_ts (final (handle_edit message s)) = last_ts s"
  by (cases message) (simp_all add: edit_program_last_ts)

lemma handle_normal_last_ts: "last_ts (final (handle_normal message s)) = last_ts s"
  by (cases message) (simp_all add: toggle_loop_last_ts apply_program_frame)

lemma record_program_change_last_ts:
  "last_ts (record_program_change now3 message s) = last_ts s"
  by (cases message) simp_all

lemma handle_last_ts: "last_ts (final (handle now1 now2 now3 message s)) = now1"
  by (simp add: handle_def Let_def handle_edit_last_ts handle_normal_last_ts
      record_program_change_last_ts split: option.splits)

lemma run_rapid:
  "rapid (last_ts s) es \<Longrightarrow> run es s = Inr (s\<lparr>last_ts := last_arrival (last_ts s) es\<rparr>)"
proof (induction es arbitrary: s)
  case Nil
  show ?case by simp
next
  case (Cons e es)
  obtain now1 now2 now3 message where e: "e = (now1, now2, now3, message)"
    by (cases e) auto
  from Cons.prems e have near: "now1 - last_ts s < 100000" and rest: "rapid now1 es"
    by simp_all
  from near have step: "handle now1 now2 now3 message s = Inr (s\<lparr>last_ts := now1\<rparr>)"
    by (simp add: handle_def)
  from rest have "rapid (last_ts (s\<lparr>last_ts := now1\<rparr>)) es"
    by simp
  then have "run es (s\<lparr>last_ts := now1\<rparr>)
               = Inr (s\<lparr>last_ts := now1\<rparr>
                       \<lparr>last_ts := last_arrival (last_ts (s\<lparr>last_ts := now1\<rparr>)) es\<rparr>)"
    by (rule Cons.IH)
  with step e show ?case
    by simp
qed

text \<open>
  C9. Every call of \<^verbatim>\<open>handle\<close> leaves the debounce clock at the arrival time of its
  event, whether the event is rejected by the debounce test, by the channel test or by
  the history test, is dispatched, or raises. Hence, after any first event, a run of
  events of any length in which each arrives less than 100 ms after the one before
  changes nothing but the clock: none of them is accepted.
\<close>

theorem debounce_clock_every_call:
  "last_ts (final (handle now1 now2 now3 message s)) = now1
   \<and> (handle now1 now2 now3 message s = Inr s' \<and> rapid now1 es \<longrightarrow>
        run ((now1, now2, now3, message) # es) s
          = Inr (s'\<lparr>last_ts := last_arrival now1 es\<rparr>))"
proof (intro conjI impI)
  show "last_ts (final (handle now1 now2 now3 message s)) = now1"
    by (rule handle_last_ts)
next
  assume a: "handle now1 now2 now3 message s = Inr s' \<and> rapid now1 es"
  then have "last_ts s' = now1"
    using handle_last_ts [of now1 now2 now3 message s] by simp
  with a have "run es s' = Inr (s'\<lparr>last_ts := last_arrival now1 es\<rparr>)"
    using run_rapid [of s' es] by simp
  with a show "run ((now1, now2, now3, message) # es) s
                 = Inr (s'\<lparr>last_ts := last_arrival now1 es\<rparr>)"
    by simp
qed

theorem debounce_clock_every_call_witness:
  "last_ts (final (handle 200000 200000 200000 (Program_change 0 5) fresh)) = 200000
   \<and> run [(200000, 200000, 200000, Program_change 0 5),
           (290000, 290000, 290000, Program_change 0 7),
           (380000, 380000, 380000, Control_change 0 83 127),
           (470000, 470000, 470000, Program_change 0 7)] fresh
     = Inr (fresh\<lparr>active_program := 5, ts_history := (0, 0, 200000),
                  program_history := (- 1, - 1, 5), last_ts := 470000,
                  outport := [Out_program_change 3 10, Out_program_change 3 10]\<rparr>)"
proof -
  have first: "handle 200000 200000 200000 (Program_change 0 5) fresh
                 = Inr (fresh\<lparr>active_program := 5, ts_history := (0, 0, 200000),
                              program_history := (- 1, - 1, 5), last_ts := 200000,
                              outport := [Out_program_change 3 10, Out_program_change 3 10]\<rparr>)"
    by (simp add: handle_def fresh_def apply_program_def py_index_def looper_program_four
        check_channel_def)
  show ?thesis
    using debounce_clock_every_call
      [of 200000 200000 200000 "Program_change 0 5" fresh
          "fresh\<lparr>active_program := 5, ts_history := (0, 0, 200000),
                 program_history := (- 1, - 1, 5), last_ts := 200000,
                 outport := [Out_program_change 3 10, Out_program_change 3 10]\<rparr>"
          "[(290000, 290000, 290000, Program_change 0 7),
            (380000, 380000, 380000, Control_change 0 83 127),
            (470000, 470000, 470000, Program_change 0 7)]"]
      first
    by simp
qed

subsection \<open>Invariants of a constructed mapper\<close>

lemma looper_programs_length: "looper_programs xs = Some l \<Longrightarrow> length xs = 2"
  by (induction xs rule: looper_programs.induct) simp_all

lemma looper_program_length:
  assumes "looper_program st = Inr p"
  shows "length st = 4"
proof -
  from assms obtain l r where l: "looper_programs (take 2 st) = Some l"
    and r: "looper_programs (drop 2 st) = Some r"
    by (auto simp: looper_program_def Let_def split: option.splits)
  from l have "length (take 2 st) = 2" by (rule looper_programs_length)
  moreover from r have "length (drop 2 st) = 2" by (rule looper_programs_length)
  ultimately show ?thesis by simp
qed

lemma apply_program_Inr:
  assumes "apply_program s = Inr s'"
  shows "length (active_state s') = 4 \<and> in_sync s'
         \<and> edit_mode s' = edit_mode s \<and> active_program s' = active_program s
         \<and> program_history s' = program_history s \<and> programs s' = programs s"
  using assms
  by (auto simp: apply_program_def Let_def in_sync_def looper_program_length
      split: option.splits sum.splits if_splits)

lemma edit_program_Inr:
  assumes "edit_program control s = Inr s'"
  shows "length (active_state s') = 4 \<and> in_sync s'
         \<and> edit_mode s' = edit_mode s \<and> active_program s' = active_program s
         \<and> program_history s' = program_history s"
proof -
  from assms obtain s1 s2 where a: "apply_program s1 = Inr s2"
    and s': "save_programs s2 = Inr s'"
    and s1: "edit_mode s1 = edit_mode s" "active_program s1 = active_program s"
      "program_history s1 = program_history s"
    by (auto simp: edit_program_def Let_def split: option.splits sum.splits)
  from apply_program_Inr [OF a] s' s1 show ?thesis
    by (auto simp: save_programs_def in_sync_def split: if_splits)
qed

lemma toggle_loop_Inr:
  assumes "toggle_loop control s = Inr s'"
  shows "length (active_state s') = length (active_state s)
         \<and> edit_mode s' = edit_mode s \<and> active_program s' = active_program s
         \<and> program_history s' = program_history s \<and> programs s' = programs s"
  using assms
  by (auto simp: toggle_loop_def Let_def split: option.splits if_splits)

lemma init_invariants:
  assumes "ProgramMapper_init port file writable in_ch out_ch loops bsize banks tt now1 now2
             = Inr s"
  shows "length (active_state s) = 4" and "in_sync s" and "history_inv s"
    and "\<not> edit_mode s"
proof -
  from assms obtain s1 s2 i where a: "apply_program s1 = Inr s2"
    and i: "py_index (programs s2) (active_program s2) = Some i"
    and s: "s = s2\<lparr>active_state := programs s2 ! i\<rparr>"
    and s1: "edit_mode s1 = False" "program_history s1 = (- 1, - 1, - 1)"
    by (auto simp: ProgramMapper_init_def Let_def save_programs_def
        split: option.splits sum.splits if_splits)
  from apply_program_Inr [OF a] i have "programs s2 ! i = active_state s2"
    by (auto simp: in_sync_def)
  with apply_program_Inr [OF a] i s s1
  show "length (active_state s) = 4" and "in_sync s" and "history_inv s"
    and "\<not> edit_mode s"
    by (simp_all add: in_sync_def history_inv_def)
qed

lemma handle_not_admitted:
  assumes "handle now1 now2 now3 message s = Inr s'"
    and "\<not> admitted now1 now2 message s"
  shows "s' = s\<lparr>last_ts := now1\<rparr>"
  using assms
  by (auto simp: handle_def admitted_def Let_def split: if_splits option.splits)

lemma handle_active_state_length:
  assumes "handle now1 now2 now3 message s = Inr s'"
    and "length (active_state s) = 4"
  shows "length (active_state s') = 4"
proof (cases "admitted now1 now2 message s")
  case False
  with assms handle_not_admitted [of now1 now2 now3 message s s'] show ?thesis
    by simp
next
  case True
  with assms show ?thesis
    by (cases message)
       (auto simp: handle_admitted Let_def split: if_splits
          dest!: apply_program_Inr edit_program_Inr toggle_loop_Inr)
qed

lemma handle_history_inv:
  assumes "handle now1 now2 now3 message s = Inr s'"
    and "history_inv s"
  shows "history_inv s'"
proof (cases "admitted now1 now2 message s")
  case False
  with assms handle_not_admitted [of now1 now2 now3 message s s'] show ?thesis
    by (auto simp: history_inv_def split: prod.splits if_splits)
next
  case True
  obtain a b c where h: "program_history s = (a, b, c)"
    by (cases "program_history s") auto
  show ?thesis
  proof (cases message)
    case (Program_change ch p)
    with assms True h show ?thesis
      by (auto simp: handle_admitted Let_def history_inv_def split: if_splits
          dest!: apply_program_Inr)
  next
    case (Control_change ch control v)
    with assms True h show ?thesis
      by (auto simp: handle_admitted Let_def history_inv_def split: if_splits
          dest!: edit_program_Inr toggle_loop_Inr)
  next
    case (Other_message ch)
    with assms True h show ?thesis
      by (auto simp: handle_admitted Let_def history_inv_def split: if_splits)
  qed
qed

lemma run_invariants:
  assumes "run es s = Inr s'"
    and "length (active_state s) = 4" and "history_inv s"
  shows "length (active_state s') = 4 \<and> history_inv s'"
  using assms
proof (induction es arbitrary: s)
  case Nil
  then show ?case by simp
next
  case (Cons e es)
  obtain now1 now2 now3 message where e: "e = (now1, now2, now3, message)"
    by (cases e) auto
  from Cons.prems(1) e obtain s1 where step: "handle now1 now2 now3 message s = Inr s1"
    and rest: "run es s1 = Inr s'"
    by (auto split: sum.splits)
  from step Cons.prems(2) have "length (active_state s1) = 4"
    by (rule handle_active_state_length)
  moreover from step Cons.prems(3) have "history_inv s1"
    by (rule handle_history_inv)
  ultimately show ?case
    using rest by (intro Cons.IH)
qed

subsection \<open>The output channel and the state file\<close>

lemma apply_program_out_channel:
  "out_channel (final (apply_program s)) = out_channel s"
  by (simp add: apply_program_def Let_def split: option.splits sum.splits if_splits)

lemma edit_program_out_channel:
  "out_channel (final (edit_program control s)) = out_channel s"
  by (auto simp: edit_program_def Let_def save_programs_def apply_program_def
      split: option.splits sum.splits if_splits)

lemma toggle_loop_out_channel:
  "out_channel (final (toggle_loop control s)) = out_channel s"
  by (simp add: toggle_loop_def Let_def split: option.splits if_splits)

lemma handle_edit_out_channel:
  "out_channel (final (handle_edit message s)) = out_channel s"
  by (cases message) (simp_all add: edit_program_out_channel)

lemma handle_normal_out_channel:
  "out_channel (final (handle_normal message s)) = out_channel s"
  by (cases message) (simp_all add: toggle_loop_out_channel apply_program_out_channel)

lemma record_program_change_out_channel:
  "out_channel (record_program_change now3 message s) = out_channel s"
  by (cases message) simp_all

lemma handle_out_channel:
  "out_channel (final (handle now1 now2 now3 message s)) = out_channel s"
  by (simp add: handle_def Let_def handle_edit_out_channel handle_normal_out_channel
      record_program_change_out_channel split: option.splits)

lemma init_out_channel:
  assumes "ProgramMapper_init port file writable in_ch out_ch loops bsize banks tt now1 now2
             = Inr s"
  shows "check_channel (out_channel s)" and "out_channel s = out_ch"
  using assms
  by (auto simp: ProgramMapper_init_def Let_def save_programs_def apply_program_def
      split: option.splits sum.splits if_splits)

lemma run_out_channel:
  assumes "run es s = Inr s'"
  shows "out_channel s' = out_channel s"
  using assms
proof (induction es arbitrary: s)
  case Nil
  then show ?case by simp
next
  case (Cons e es)
  obtain now1 now2 now3 message where e: "e = (now1, now2, now3, message)"
    by (cases e) auto
  from Cons.prems e obtain s1 where step: "handle now1 now2 now3 message s = Inr s1"
    and rest: "run es s1 = Inr s'"
    by (auto split: sum.splits)
  from step have "out_channel s1 = out_channel s"
    using handle_out_channel [of now1 now2 now3 message s] by simp
  moreover from rest have "out_channel s' = out_channel s1"
    by (rule Cons.IH)
  ultimately show ?case by simp
qed

text \<open>
  What the source does with an output channel that is no MIDI channel, and with a state
  file that cannot be written: \<^verbatim>\<open>mido.Message\<close> raises before anything is sent, and
  \<^verbatim>\<open>open\<close> raises before anything is written; what was assigned before stays.
\<close>

lemma apply_program_bad_channel:
  assumes "py_index (programs s) (active_program s) = Some i"
    and "length (programs s ! i) = 4"
    and "\<not> check_channel (out_channel s)"
  shows "apply_program s = Inl (ValueError, s\<lparr>active_state := programs s ! i\<rparr>)"
proof -
  have "looper_program (programs s ! i)
          = Inr (10 * (pair_digit (programs s ! i ! 0) (programs s ! i ! 1) + 1)
                 + pair_digit (programs s ! i ! 2) (programs s ! i ! 3))"
    using looper_program_pair_digit
        [of "programs s ! i ! 0" "programs s ! i ! 1" "programs s ! i ! 2" "programs s ! i ! 3"]
      length_four [OF assms(2)] by simp
  with assms(1,3) show ?thesis
    by (simp add: apply_program_def)
qed

lemma edit_program_bad_channel:
  assumes "edit_mode s"
    and "py_index (programs s) (active_program s) = Some i"
    and "programs s ! i = [False, False, False, False]"
    and "admitted now1 now2 (Control_change ch 82 v) s"
    and "\<not> check_channel (out_channel s)"
  shows "handle now1 now2 now3 (Control_change ch 82 v) s =
           Inl (ValueError,
                s\<lparr>last_ts := now1,
                  programs := (programs s)[i := [False, True, False, False]],
                  active_state := [False, True, False, False]\<rparr>)"
proof -
  have i: "i < length (programs s)"
    using assms(2) by (rule py_index_bound)
  show ?thesis
    using assms i
    by (simp add: handle_admitted edit_program_def apply_program_def save_programs_def
        looper_program_four py_index_nat)
qed

lemma edit_program_unwritable:
  assumes "edit_mode s"
    and "py_index (programs s) (active_program s) = Some i"
    and "programs s ! i = [False, False, False, False]"
    and "admitted now1 now2 (Control_change ch 82 v) s"
    and "check_channel (out_channel s)"
    and "\<not> file_writable s"
  shows "handle now1 now2 now3 (Control_change ch 82 v) s =
           Inl (OSError,
                s\<lparr>last_ts := now1,
                  programs := (programs s)[i := [False, True, False, False]],
                  active_state := [False, True, False, False],
                  outport := outport s @ [Out_program_change (out_channel s) 30]\<rparr>)"
proof -
  have i: "i < length (programs s)"
    using assms(2) by (rule py_index_bound)
  show ?thesis
    using assms i
    by (simp add: handle_admitted edit_program_def apply_program_def save_programs_def
        looper_program_four py_index_nat)
qed

lemma toggle_loop_bad_channel:
  assumes "\<not> edit_mode s"
    and "80 \<le> c" and "c \<le> 83"
    and "admitted now1 now2 (Control_change ch c v) s"
    and "nat (3 - (c - 80)) < length (active_state s)"
    and "\<not> check_channel (out_channel s)"
  shows "handle now1 now2 now3 (Control_change ch c v) s =
           Inl (ValueError,
                s\<lparr>last_ts := now1,
                  active_state := (active_state s)
                    [nat (3 - (c - 80)) := \<not> active_state s ! nat (3 - (c - 80))]\<rparr>)"
proof -
  have loop: "3 - c + 80 = 3 - (c - 80)"
    by simp
  have idx: "py_index (active_state s) (3 - (c - 80)) = Some (nat (3 - (c - 80)))"
    using assms(2,3,5) by (intro py_index_nat) auto
  show ?thesis
    using assms(1,4,5,6) idx
    by (simp add: handle_admitted assms(2,3) toggle_loop_def loop Let_def)
qed

subsection \<open>Active state and program table\<close>

lemma switch_in_sync:
  assumes "handle now1 now2 now3 (Program_change ch p) s = Inr s'"
    and "admitted now1 now2 (Program_change ch p) s"
    and "\<not> edit_mode s" and "p \<noteq> active_program s" and "\<not> tripletap now3 p s"
  shows "in_sync s' \<and> active_program s' = p"
  using assms
  by (cases "program_history s"; cases "ts_history s")
     (auto simp: handle_admitted tripletap_def Let_def split: if_splits
        dest!: apply_program_Inr)

lemma edit_in_sync:
  assumes "handle now1 now2 now3 (Control_change ch c v) s = Inr s'"
    and "admitted now1 now2 (Control_change ch c v) s"
    and "edit_mode s" and "80 \<le> c" and "c \<le> 83"
  shows "in_sync s'"
  using assms
  by (auto simp: handle_admitted dest!: edit_program_Inr)

lemma in_sync_update:
  "in_sync (s\<lparr>last_ts := t\<rparr>) = in_sync s"
  "in_sync (s\<lparr>ts_history := th\<rparr>) = in_sync s"
  "in_sync (s\<lparr>program_history := ph\<rparr>) = in_sync s"
  "in_sync (s\<lparr>edit_mode := e\<rparr>) = in_sync s"
  "in_sync (s\<lparr>outport := out\<rparr>) = in_sync s"
  "in_sync (s\<lparr>state_file := f\<rparr>) = in_sync s"
  by (simp_all add: in_sync_def)

lemma in_sync_lost:
  assumes "handle now1 now2 now3 message s = Inr s'"
    and "in_sync s" and "history_inv s" and "valid_program message"
    and "\<not> in_sync s'"
  shows "admitted now1 now2 message s \<and> \<not> edit_mode s
         \<and> (\<exists>ch c v. message = Control_change ch c v \<and> 80 \<le> c \<and> c \<le> 83)"
proof (cases "admitted now1 now2 message s")
  case False
  with assms(1) have "s' = s\<lparr>last_ts := now1\<rparr>"
    by (rule handle_not_admitted)
  with assms(2,5) have False
    by (simp add: in_sync_update)
  then show ?thesis ..
next
  case True
  obtain a b c where h: "program_history s = (a, b, c)"
    by (cases "program_history s") auto
  show ?thesis
  proof (cases message)
    case (Program_change ch p)
    with assms True h show ?thesis
      by (auto simp: handle_admitted Let_def history_inv_def in_sync_update
          split: if_splits dest!: apply_program_Inr)
  next
    case (Control_change ch control v)
    with assms True show ?thesis
      by (auto simp: handle_admitted Let_def in_sync_update split: if_splits
          dest!: edit_program_Inr)
  next
    case (Other_message ch)
    with assms True show ?thesis
      by (auto simp: handle_admitted Let_def in_sync_update split: if_splits)
  qed
qed

text \<open>
  C5, as the code has it. After a call of \<^verbatim>\<open>handle\<close> that returns: when the call
  switched the program (program mode, an admitted program change to a program other than
  the active one, triple-tap condition not met) or edited a loop in edit mode, the
  active state equals the table entry of the active program. A call that starts with
  the two equal and ends with them different is a manual toggle in program mode, an
  admitted control change on a control from 80 to 83; this holds on every mapper that
  satisfies \<open>history_inv\<close>, which construction establishes (\<open>init_invariants\<close>) and
  every run of events keeps (\<open>run_invariants\<close>), for MIDI program numbers.
\<close>

theorem active_state_in_sync:
  assumes "handle now1 now2 now3 message s = Inr s'"
  shows "(admitted now1 now2 message s \<and> \<not> edit_mode s \<and> message = Program_change ch p
            \<and> p \<noteq> active_program s \<and> \<not> tripletap now3 p s
          \<longrightarrow> in_sync s' \<and> active_program s' = p)
         \<and> (admitted now1 now2 message s \<and> edit_mode s \<and> message = Control_change ch c v
              \<and> 80 \<le> c \<and> c \<le> 83
            \<longrightarrow> in_sync s')
         \<and> (in_sync s \<and> history_inv s \<and> valid_program message \<and> \<not> in_sync s'
            \<longrightarrow> admitted now1 now2 message s \<and> \<not> edit_mode s
                \<and> (\<exists>ch c v. message = Control_change ch c v \<and> 80 \<le> c \<and> c \<le> 83))"
proof -
  have switch: "admitted now1 now2 message s \<and> \<not> edit_mode s
                  \<and> message = Program_change ch p
                  \<and> p \<noteq> active_program s \<and> \<not> tripletap now3 p s
                \<longrightarrow> in_sync s' \<and> active_program s' = p"
    using assms switch_in_sync [of now1 now2 now3 ch p s s'] by auto
  have edit: "admitted now1 now2 message s \<and> edit_mode s
                \<and> message = Control_change ch c v \<and> 80 \<le> c \<and> c \<le> 83
              \<longrightarrow> in_sync s'"
    using assms edit_in_sync [of now1 now2 now3 ch c v s s'] by auto
  have lost: "in_sync s \<and> history_inv s \<and> valid_program message \<and> \<not> in_sync s'
              \<longrightarrow> admitted now1 now2 message s \<and> \<not> edit_mode s
                  \<and> (\<exists>ch c v. message = Control_change ch c v \<and> 80 \<le> c \<and> c \<le> 83)"
    using assms in_sync_lost [of now1 now2 now3 message s s'] by blast
  from switch edit lost show ?thesis
    by (intro conjI)
qed

theorem active_state_in_sync_witness:
  "(in_sync (fresh\<lparr>last_ts := 200000, ts_history := (0, 0, 200000),
                   program_history := (- 1, - 1, 5), active_program := 5,
                   outport := [Out_program_change 3 10, Out_program_change 3 10]\<rparr>)
    \<and> in_sync (fresh\<lparr>edit_mode := True, last_ts := 200000,
                     programs := (replicate 36 [False, False, False, False])
                                   [0 := [False, True, False, False]],
                     active_state := [False, True, False, False],
                     outport := [Out_program_change 3 10, Out_program_change 3 30],
                     state_file := Some ((replicate 36 [False, False, False, False])
                                           [0 := [False, True, False, False]])\<rparr>))
   \<and> (in_sync fresh \<and> history_inv fresh
      \<and> \<not> in_sync (fresh\<lparr>last_ts := 200000, active_state := [True, False, False, False],
                          outport := [Out_program_change 3 10,
                                      Out_control_change 3 80 127]\<rparr>)
      \<and> admitted 200000 200000 (Control_change 0 83 127) fresh \<and> \<not> edit_mode fresh)"
proof -
  have h1: "handle 200000 200000 200000 (Program_change 0 5) fresh =
              Inr (fresh\<lparr>last_ts := 200000, ts_history := (0, 0, 200000),
                         program_history := (- 1, - 1, 5), active_program := 5,
                         outport := [Out_program_change 3 10, Out_program_change 3 10]\<rparr>)"
    by (simp add: handle_def fresh_def apply_program_def py_index_def looper_program_four
        check_channel_def)
  have p1: "admitted 200000 200000 (Program_change 0 5) fresh \<and> \<not> edit_mode fresh
            \<and> 5 \<noteq> active_program fresh \<and> \<not> tripletap 200000 5 fresh"
    by (simp add: admitted_def tripletap_def fresh_def)
  have c1: "in_sync (fresh\<lparr>last_ts := 200000, ts_history := (0, 0, 200000),
                         program_history := (- 1, - 1, 5), active_program := 5,
                         outport := [Out_program_change 3 10, Out_program_change 3 10]\<rparr>)"
    using active_state_in_sync [OF h1, where ch = 0 and p = 5] p1 by simp
  have h2: "handle 200000 200000 200000 (Control_change 0 82 127) (fresh\<lparr>edit_mode := True\<rparr>) =
              Inr (fresh\<lparr>edit_mode := True, last_ts := 200000,
                     programs := (replicate 36 [False, False, False, False])
                                   [0 := [False, True, False, False]],
                     active_state := [False, True, False, False],
                     outport := [Out_program_change 3 10, Out_program_change 3 30],
                     state_file := Some ((replicate 36 [False, False, False, False])
                                           [0 := [False, True, False, False]])\<rparr>)"
    by (simp add: handle_def fresh_def edit_program_def apply_program_def save_programs_def
        py_index_def looper_program_four check_channel_def)
  have p2: "admitted 200000 200000 (Control_change 0 82 127) (fresh\<lparr>edit_mode := True\<rparr>)
            \<and> edit_mode (fresh\<lparr>edit_mode := True\<rparr>)"
    by (simp add: admitted_def fresh_def)
  have c2: "in_sync (fresh\<lparr>edit_mode := True, last_ts := 200000,
                     programs := (replicate 36 [False, False, False, False])
                                   [0 := [False, True, False, False]],
                     active_state := [False, True, False, False],
                     outport := [Out_program_change 3 10, Out_program_change 3 30],
                     state_file := Some ((replicate 36 [False, False, False, False])
                                           [0 := [False, True, False, False]])\<rparr>)"
    using active_state_in_sync [OF h2, where ch = 0 and c = 82 and v = 127] p2 by simp
  have h3: "handle 200000 200000 200000 (Control_change 0 83 127) fresh =
              Inr (fresh\<lparr>last_ts := 200000, active_state := [True, False, False, False],
                         outport := [Out_program_change 3 10,
                                     Out_control_change 3 80 127]\<rparr>)"
    by (simp add: handle_def fresh_def toggle_loop_def py_index_def check_channel_def)
  have p3: "in_sync fresh \<and> history_inv fresh
            \<and> valid_program (Control_change 0 83 127)
            \<and> \<not> in_sync (fresh\<lparr>last_ts := 200000,
                                active_state := [True, False, False, False],
                                outport := [Out_program_change 3 10,
                                            Out_control_change 3 80 127]\<rparr>)"
    by (simp add: in_sync_def history_inv_def fresh_def py_index_def)
  have c3: "admitted 200000 200000 (Control_change 0 83 127) fresh \<and> \<not> edit_mode fresh"
    using active_state_in_sync [OF h3, where ch = 0 and p = 0 and c = 0 and v = 0] p3 by simp
  from c1 c2 c3 p3 show ?thesis
    by simp
qed

text \<open>
  C5 as written covers every program change. On the default mapper, a manual toggle of
  loop 0 followed by a program change to program 0, which is the active program already,
  leaves the active state at (on, off, off, off) while the table entry of program 0 is
  all off: the program change is handled and does not bring the two together.
\<close>

theorem program_change_in_sync_counterexample:
  "run [(200000, 200000, 200000, Control_change 0 83 127),
        (400000, 400000, 400000, Program_change 0 0)] fresh
     = Inr (fresh\<lparr>last_ts := 400000, ts_history := (0, 0, 400000),
                  program_history := (- 1, - 1, 0),
                  active_state := [True, False, False, False],
                  outport := [Out_program_change 3 10, Out_control_change 3 80 127]\<rparr>)
   \<and> \<not> in_sync (fresh\<lparr>last_ts := 400000, ts_history := (0, 0, 400000),
                      program_history := (- 1, - 1, 0),
                      active_state := [True, False, False, False],
                      outport := [Out_program_change 3 10, Out_control_change 3 80 127]\<rparr>)"
  by (simp add: handle_def fresh_def toggle_loop_def py_index_def in_sync_def
      check_channel_def)

end
